theory Spec2Isabelle
  imports Complex_Main
begin

section \<open>Aggregation engine: peak-weighted averages\<close>

text \<open>
  Embedding of \<^verbatim>\<open>calculate_peak_weighted_average\<close>
  (backend/services/cctv_monitoring_service.py) and of
  \<^verbatim>\<open>calculate_peak_weighted_nlp_average\<close>
  (backend/services/sentiment_analysis_service.py).

  Scores are Python floats, that is IEEE binary64 numbers. A float is modelled as the real
  number it denotes, and every arithmetic operation of the visual function is followed by
  the rounding \<open>fl\<close> to the nearest binary64 number. Infinities and NaN are not
  modelled: the statements below are about scores between 0 and 1, where no operation of
  the function overflows.
\<close>

subsection \<open>IEEE binary64 rounding\<close>

text \<open>Rounding to the nearest integer, a tie going to the even one.\<close>

definition round_half_even :: "real \<Rightarrow> int" where
  "round_half_even y =
     (let f = \<lfloor>y\<rfloor>; d = y - of_int f
      in if d < 1/2 then f else if d > 1/2 then f + 1 else if even f then f else f + 1)"

text \<open>The binary exponent of a positive real: the \<open>e\<close> with \<open>2^e \<le> x < 2^(e+1)\<close>.\<close>

function float_exponent :: "real \<Rightarrow> int" where
  "float_exponent x =
     (if 2 \<le> x then float_exponent (x / 2) + 1
      else if 0 < x \<and> x < 1 then float_exponent (2 * x) - 1
      else 0)"
  by pat_completeness auto
termination
proof (relation "measure (\<lambda>x. if 1 \<le> x then nat \<lfloor>x\<rfloor> else nat \<lceil>1 / x\<rceil>)")
  show "wf (measure (\<lambda>x. if 1 \<le> x then nat \<lfloor>x\<rfloor> else nat \<lceil>1 / x\<rceil>))" by simp
next
  fix x :: real assume "2 \<le> x"
  then have "\<lfloor>x / 2\<rfloor> < \<lfloor>x\<rfloor>" by linarith
  moreover have "0 < \<lfloor>x\<rfloor>" using \<open>2 \<le> x\<close> by linarith
  ultimately show "(x / 2, x) \<in> measure (\<lambda>x. if 1 \<le> x then nat \<lfloor>x\<rfloor> else nat \<lceil>1 / x\<rceil>)"
    using \<open>2 \<le> x\<close> by simp
next
  fix x :: real assume a: "\<not> 2 \<le> x" "0 < x \<and> x < 1"
  then have x: "0 < x" "x < 1" by simp_all
  then have inv: "1 < 1 / x" by simp
  show "(2 * x, x) \<in> measure (\<lambda>x. if 1 \<le> x then nat \<lfloor>x\<rfloor> else nat \<lceil>1 / x\<rceil>)"
  proof (cases "1 \<le> 2 * x")
    case True
    then have "\<lfloor>2 * x\<rfloor> = 1" using x by linarith
    moreover have "2 \<le> \<lceil>1 / x\<rceil>" using inv by linarith
    ultimately show ?thesis using True x by simp
  next
    case False
    then have "2 < 1 / x" using x by (simp add: field_simps)
    have "1 / (2 * x) = (1 / x) / 2" by simp
    then have "\<lceil>1 / (2 * x)\<rceil> < \<lceil>1 / x\<rceil>" using \<open>2 < 1 / x\<close> by linarith
    moreover have "0 < \<lceil>1 / x\<rceil>" using inv by linarith
    ultimately show ?thesis using False x by simp
  qed
qed

declare float_exponent.simps [simp del]

text \<open>
  Round to nearest, ties to even, with 53 significant bits; below \<open>2^-1022\<close> the spacing
  stays \<open>2^-1074\<close> (gradual underflow). \<open>fl x\<close> is the float that a binary64 operation
  with exact result \<open>x\<close> returns, and the float that the decimal literal \<open>x\<close> denotes.
\<close>

definition fl :: "real \<Rightarrow> real" where
  "fl x =
     (if x = 0 then 0
      else
        let e = max (float_exponent \<bar>x\<bar> - 52) (- 1074);
            u = 2 powi e
        in sgn x * (of_int (round_half_even (\<bar>x\<bar> / u)) * u))"


subsection \<open>Python primitives used by the two functions\<close>

text \<open>\<^verbatim>\<open>sum(xs)\<close> on floats: starts from 0 and adds the elements from left to right,
  rounding after each addition (CPython up to 3.11; later versions add a compensation
  term, which changes nothing on lists of two elements).\<close>

definition float_sum :: "real list \<Rightarrow> real" where
  "float_sum xs = foldl (\<lambda>s x. fl (s + x)) 0 xs"



subsection \<open>Visual scores\<close>

text \<open>The two literals are the floats nearest to 0.45 and 0.12.\<close>

definition NEUTRAL_BASELINE :: real where
  "NEUTRAL_BASELINE = fl 0.45"

definition SIGNIFICANCE_THRESHOLD :: real where
  "SIGNIFICANCE_THRESHOLD = fl 0.12"

text \<open>The \<^verbatim>\<open>for score in scores\<close> loop that appends to \<^verbatim>\<open>significant_scores\<close>. The
  subtraction rounds; \<^verbatim>\<open>abs\<close> and the comparison are exact.\<close>

definition collect_significant :: "real list \<Rightarrow> real list" where
  "collect_significant scores =
     foldl (\<lambda>significant_scores score.
              let deviation = \<bar>fl (score - NEUTRAL_BASELINE)\<bar>
              in if deviation \<ge> SIGNIFICANCE_THRESHOLD
                 then significant_scores @ [score]
                 else significant_scores)
           [] scores"

text \<open>\<^verbatim>\<open>len(scores)\<close> is an integer below \<open>2^53\<close>, which the division converts to a
  float without rounding.\<close>

definition calculate_peak_weighted_average :: "real list \<Rightarrow> real" where
  "calculate_peak_weighted_average scores =
     (if scores = [] then 0.0
      else if length scores = 1 then scores ! 0
      else
        let overall_avg = fl (float_sum scores / real (length scores));
            significant_scores = collect_significant scores
        in if significant_scores \<noteq> [] then
             let peak_avg =
                   fl (float_sum significant_scores / real (length significant_scores))
             in fl (fl (peak_avg * fl 0.7) + fl (overall_avg * fl 0.3))
           else overall_avg)"

subsection \<open>Text-derived scores\<close>





subsection \<open>Reference definitions, following the specification's wording\<close>

text \<open>The specification's formulas in exact arithmetic.\<close>

definition mean :: "real list \<Rightarrow> real" where
  "mean xs = sum_list xs / real (length xs)"










section \<open>Monitoring service: data model\<close>

text \<open>
  Embedding of class \<^verbatim>\<open>CCTVMonitoringService\<close>
  (backend/services/cctv_monitoring_service.py). The object's attributes are a record
  that every method takes and returns. What the methods obtain from the camera, the
  database, the detector and the clock is passed in as an argument, one value per call
  the source makes. The background worker threads run concurrently in the source; here
  a started thread is only the value stored in the attribute.
\<close>

type_synonym force_id = string

datatype capture = VideoCapture nat

datatype thread = Thread string

text \<open>An attribute that \<^verbatim>\<open>delattr\<close> can remove and \<^verbatim>\<open>hasattr\<close> tests.\<close>

datatype 'a attr = Absent | Present 'a

text \<open>Python exceptions that leave a method: \<^verbatim>\<open>Exception\<close> with its message,
  UnboundLocalError with the name of the local variable, KeyError with the key.\<close>

datatype error =
    Exception string
  | UnboundLocalError string
  | KeyError string

text \<open>An external call: it raises (with the text of the exception) or returns.\<close>

datatype 'a outcome = Raises string | Returns 'a

text \<open>Entries of \<^verbatim>\<open>detection_buffer[force_id]\<close> (keys score, emotion, timestamp,
  face_coords).\<close>

record buffered_detection =
  b_score :: real
  b_emotion :: string
  b_timestamp :: real
  b_face_coords :: "int \<times> int \<times> int \<times> int"

text \<open>Entries of \<^verbatim>\<open>survey_detections\<close>. The stop operation tests whether the keys
  score and emotion are in the dict, so these two are optional.\<close>

record survey_detection =
  sd_timestamp :: string
  sd_emotion :: "string option"
  sd_score :: "real option"
  sd_force_id :: force_id
  sd_method :: "string option"

record service =
  monitoring_id :: "nat option"
  cap :: "capture option"
  is_monitoring :: bool
  monitor_thread :: "thread option"
  detection_buffer :: "force_id \<rightharpoonup> buffered_detection list"
  last_average_time :: "force_id \<rightharpoonup> real"
  buffers_are_defaultdict :: bool
  survey_monitoring :: bool
  survey_mode :: bool
  survey_thread_active :: bool
  survey_thread :: "thread option attr"
  survey_force_id :: "force_id attr"
  survey_detections :: "survey_detection list attr"
  survey_start_time :: "real attr"

text \<open>The object as \<^verbatim>\<open>__init__\<close> leaves it. \<^verbatim>\<open>detection_buffer\<close> and
  \<^verbatim>\<open>last_average_time\<close> are plain dicts here; \<^verbatim>\<open>stop_monitoring\<close> replaces them
  by defaultdicts, which \<^verbatim>\<open>buffers_are_defaultdict\<close> records.\<close>

definition init_service :: service where
  "init_service =
     \<lparr> monitoring_id = None, cap = None, is_monitoring = False, monitor_thread = None,
       detection_buffer = Map.empty, last_average_time = Map.empty,
       buffers_are_defaultdict = False,
       survey_monitoring = False, survey_mode = False, survey_thread_active = False,
       survey_thread = Present None, survey_force_id = Absent,
       survey_detections = Absent, survey_start_time = Absent \<rparr>"

definition AVERAGE_INTERVAL :: real where
  "AVERAGE_INTERVAL = 3"

subsection \<open>Database tables\<close>

text \<open>A timestamp is a day number and the seconds into that day; \<^verbatim>\<open>DATE(ts)\<close> is
  the day.\<close>

type_synonym datetime = "nat \<times> nat"

definition DATE :: "datetime \<Rightarrow> nat" where
  "DATE ts = fst ts"

record detection_row =
  det_monitoring_id :: "nat option"
  det_force_id :: force_id
  detection_timestamp :: datetime
  det_depression_score :: real

record daily_score_row =
  daily_force_id :: force_id
  score_date :: nat
  depression_score :: real

record database =
  cctv_detections :: "detection_row list"
  daily_depression_scores :: "daily_score_row list"

text \<open>How the database behaves during one method call: the connection cannot be made
  (\<^verbatim>\<open>get_connection\<close> raises), a statement or the commit raises, or all goes well.\<close>

datatype db_fault = NoFault | ConnectionFails string | StatementFails string

text \<open>SQL \<^verbatim>\<open>AVG\<close>: NULL over no rows.\<close>

definition sql_avg :: "real list \<Rightarrow> real option" where
  "sql_avg xs = (if xs = [] then None else Some (sum_list xs / real (length xs)))"

section \<open>Camera acquisition\<close>

text \<open>What opening device \<open>i\<close> and one test read give: \<^verbatim>\<open>isOpened()\<close> is false; it is
  open but the read returns no frame; it is open and a frame is returned.\<close>

datatype probe = NotOpened | OpenedNoFrame | Ready

text \<open>\<^verbatim>\<open>_find_available_camera\<close>: index 1, then index 0. A handle that is not ready is
  released before the next index is tried and is never returned.\<close>

definition find_available_camera :: "(nat \<Rightarrow> probe) \<Rightarrow> capture option" where
  "find_available_camera probes =
     (if probes 1 = Ready then Some (VideoCapture 1)
      else if probes 0 = Ready then Some (VideoCapture 0)
      else None)"

section \<open>General mode: start, flush, stop\<close>

text \<open>What the database does in \<^verbatim>\<open>start_monitoring\<close>: \<^verbatim>\<open>get_connection\<close> raises; the
  INSERT, \<^verbatim>\<open>LAST_INSERT_ID\<close> or the commit raises; or the row is inserted with the id
  given.\<close>

datatype db_start = ConnectFails string | InsertFails string | Inserted nat

text \<open>The outer \<^verbatim>\<open>except\<close> block of \<^verbatim>\<open>start_monitoring\<close>.\<close>

definition start_cleanup :: "string \<Rightarrow> service \<Rightarrow> (error + bool) \<times> service" where
  "start_cleanup e s =
     (let error_msg = ''Failed to start monitoring: '' @ e;
          s1 = (if cap s \<noteq> None then s\<lparr>cap := None\<rparr> else s)
      in (Inl (Exception error_msg), s1\<lparr>is_monitoring := False, monitoring_id := None\<rparr>))"

definition start_monitoring ::
  "(nat \<Rightarrow> probe) \<Rightarrow> db_start \<Rightarrow> string \<Rightarrow> service \<Rightarrow> (error + bool) \<times> service" where
  "start_monitoring probes dbo date s =
     (if is_monitoring s then (Inr False, s)
      else
        let s1 = (if cap s \<noteq> None then s\<lparr>cap := None\<rparr> else s);
            s2 = s1\<lparr>cap := find_available_camera probes\<rparr>
        in if cap s2 = None then
             start_cleanup ''Could not find any available camera - please connect a camera'' s2
           else
             (case dbo of
                ConnectFails e \<Rightarrow> start_cleanup e s2
              | InsertFails e \<Rightarrow> start_cleanup (''Database error: '' @ e) s2
              | Inserted new_id \<Rightarrow>
                  (Inr True,
                   s2\<lparr>monitoring_id := Some new_id,
                      is_monitoring := True,
                      monitor_thread := Some (Thread ''_process_frames_continuously'')\<rparr>)))"

text \<open>\<^verbatim>\<open>_calculate_and_store_average\<close>. \<^verbatim>\<open>conn\<close> is assigned inside the \<^verbatim>\<open>try\<close>
  only, so when \<^verbatim>\<open>get_connection\<close> raises, the \<^verbatim>\<open>finally\<close> block's
  \<^verbatim>\<open>if conn:\<close> reads an unbound local and its UnboundLocalError replaces the
  \<^verbatim>\<open>return\<close> of the \<^verbatim>\<open>except\<close> block. The most common emotion is computed for
  the log line only.\<close>

definition calculate_and_store_average ::
  "db_fault \<Rightarrow> datetime \<Rightarrow> force_id \<Rightarrow> real \<Rightarrow> service \<Rightarrow> database
     \<Rightarrow> (error + unit) \<times> service \<times> database" where
  "calculate_and_store_average fault now force_id current_time s db =
     (case detection_buffer s force_id of
        None \<Rightarrow>
          if buffers_are_defaultdict s
          then (Inr (), s\<lparr>detection_buffer := (detection_buffer s)(force_id \<mapsto> [])\<rparr>, db)
          else (Inl (KeyError force_id), s, db)
      | Some buffer \<Rightarrow>
          if buffer = [] then (Inr (), s, db)
          else
            let scores = map b_score buffer;
                avg_score = calculate_peak_weighted_average scores
            in (case fault of
                  ConnectionFails e \<Rightarrow> (Inl (UnboundLocalError ''conn''), s, db)
                | StatementFails e \<Rightarrow> (Inr (), s, db)
                | NoFault \<Rightarrow>
                    (Inr (),
                     s\<lparr>detection_buffer := (detection_buffer s)(force_id \<mapsto> []),
                       last_average_time := (last_average_time s)(force_id \<mapsto> current_time)\<rparr>,
                     db\<lparr>cctv_detections := cctv_detections db @
                          [\<lparr>det_monitoring_id = monitoring_id s, det_force_id = force_id,
                            detection_timestamp = now, det_depression_score = avg_score\<rparr>]\<rparr>)))"

text \<open>The body of the \<^verbatim>\<open>for force_id in force_ids\<close> loop of \<^verbatim>\<open>stop_monitoring\<close>:
  the average of all of today's rows of the soldier, then UPDATE or INSERT.\<close>

definition todays_scores :: "database \<Rightarrow> force_id \<Rightarrow> nat \<Rightarrow> real list" where
  "todays_scores db force_id monitoring_date =
     map det_depression_score
       (filter (\<lambda>r. det_force_id r = force_id \<and> DATE (detection_timestamp r) = monitoring_date)
          (cctv_detections db))"

definition store_daily_average :: "nat \<Rightarrow> database \<Rightarrow> force_id \<Rightarrow> database" where
  "store_daily_average monitoring_date db force_id =
     (case sql_avg (todays_scores db force_id monitoring_date) of
        None \<Rightarrow> db
      | Some daily_avg \<Rightarrow>
          let existing_entry =
                filter (\<lambda>r. daily_force_id r = force_id \<and> score_date r = monitoring_date)
                  (daily_depression_scores db)
          in if existing_entry \<noteq> [] then
               db\<lparr>daily_depression_scores :=
                    map (\<lambda>r. if daily_force_id r = force_id \<and> score_date r = monitoring_date
                              then r\<lparr>depression_score := daily_avg\<rparr> else r)
                      (daily_depression_scores db)\<rparr>
             else
               db\<lparr>daily_depression_scores := daily_depression_scores db @
                    [\<lparr>daily_force_id = force_id, score_date = monitoring_date,
                      depression_score = daily_avg\<rparr>]\<rparr>)"

text \<open>\<^verbatim>\<open>SELECT DISTINCT force_id FROM cctv_detections WHERE monitoring_id = %s\<close>; a NULL
  parameter matches no row.\<close>

definition session_force_ids :: "database \<Rightarrow> nat option \<Rightarrow> force_id list" where
  "session_force_ids db mid =
     remdups (map det_force_id
       (filter (\<lambda>r. mid \<noteq> None \<and> det_monitoring_id r = mid) (cctv_detections db)))"

text \<open>\<^verbatim>\<open>stop_monitoring\<close>. \<^verbatim>\<open>conn\<close> is unbound in the \<^verbatim>\<open>finally\<close> block when
  \<^verbatim>\<open>get_connection\<close> raises, as in the flush. A failing statement is rolled back. The
  camera is released but the attribute \<^verbatim>\<open>cap\<close> keeps the handle. The attribute
  \<^verbatim>\<open>emotion_detection_service\<close>, which is set to None at the end and read nowhere, is
  not part of the record.\<close>

definition stop_monitoring ::
  "db_fault \<Rightarrow> datetime \<Rightarrow> service \<Rightarrow> database \<Rightarrow> (error + bool) \<times> service \<times> database" where
  "stop_monitoring fault now s db =
     (if \<not> is_monitoring s then (Inr False, s, db)
      else
        let s1 = s\<lparr>is_monitoring := False\<rparr>
        in (case fault of
              ConnectionFails e \<Rightarrow> (Inl (UnboundLocalError ''conn''), s1, db)
            | StatementFails e \<Rightarrow> (Inr False, s1, db)
            | NoFault \<Rightarrow>
                let force_ids = session_force_ids db (monitoring_id s1);
                    monitoring_date = DATE now;
                    db' = foldl (store_daily_average monitoring_date) db force_ids
                in (Inr True,
                    s1\<lparr>monitoring_id := None,
                       detection_buffer := Map.empty,
                       last_average_time := Map.empty,
                       buffers_are_defaultdict := True\<rparr>,
                    db')))"

text \<open>\<^verbatim>\<open>process_frame\<close>, the caller of the flush. The frame source, the two detector
  entry points and the clock are arguments. Drawing and the preview window are left out.\<close>

type_synonym detector_hit = "force_id \<times> string \<times> real \<times> (int \<times> int \<times> int \<times> int)"

record frame_env =
  read_ok :: bool
  detect_face_and_emotion :: "detector_hit option"
  detect_emotion_for_survey :: "force_id \<Rightarrow> detector_hit option"
  current_time :: real
  flush_fault :: db_fault
  flush_now :: datetime

definition process_frame ::
  "frame_env \<Rightarrow> service \<Rightarrow> database
     \<Rightarrow> (error + (force_id \<times> string \<times> real) option) \<times> service \<times> database" where
  "process_frame env s db =
     (if cap s = None \<or> monitoring_id s = None \<or> monitoring_id s = Some 0 then (Inr None, s, db)
      else if \<not> read_ok env then (Inr None, s, db)
      else
        let result =
              (if survey_mode s then
                 (case survey_force_id s of
                    Present fid \<Rightarrow> detect_emotion_for_survey env fid
                  | Absent \<Rightarrow> None)
               else detect_face_and_emotion env)
        in (case result of
              None \<Rightarrow> (Inr None, s, db)
            | Some (force_id, emotion, score, face_coords) \<Rightarrow>
                let s1 = (if detection_buffer s force_id = None
                          then s\<lparr>detection_buffer := (detection_buffer s)(force_id \<mapsto> []),
                                 last_average_time :=
                                   (last_average_time s)(force_id \<mapsto> current_time env)\<rparr>
                          else s);
                    entry = \<lparr>b_score = score, b_emotion = emotion,
                             b_timestamp = current_time env, b_face_coords = face_coords\<rparr>;
                    s2 = s1\<lparr>detection_buffer :=
                              (detection_buffer s1)
                                (force_id \<mapsto> the (detection_buffer s1 force_id) @ [entry])\<rparr>
                in (case (case last_average_time s2 force_id of
                            Some t \<Rightarrow> Inr t
                          | None \<Rightarrow> if buffers_are_defaultdict s2 then Inr 0
                                    else Inl (KeyError force_id)) of
                      Inl e \<Rightarrow> (Inl e, s2, db)
                    | Inr last_time \<Rightarrow>
                        if current_time env - last_time \<ge> AVERAGE_INTERVAL then
                          (case calculate_and_store_average (flush_fault env) (flush_now env)
                                  force_id (current_time env) s2 db of
                             (Inl e, s3, db3) \<Rightarrow> (Inl e, s3, db3)
                           | (Inr u, s3, db3) \<Rightarrow> (Inr (Some (force_id, emotion, score)), s3, db3))
                        else (Inr (Some (force_id, emotion, score)), s2, db))))"

section \<open>Survey mode: start and stop\<close>

text \<open>The dict returned by \<^verbatim>\<open>emotion_service.get_camera_optimal_settings()\<close>; the
  service is not part of this repository's sources, so its result is an argument. A key
  that is read with \<^verbatim>\<open>[...]\<close> raises KeyError when it is missing.\<close>

record optimal_settings =
  use_auto_resolution :: "bool option"
  width :: "int option"
  height :: "int option"
  fps :: "int option"
  detection_interval :: "int option"

record survey_env =
  camera_probes :: "nat \<Rightarrow> probe"
  get_camera_optimal_settings :: "optimal_settings outcome"
  set_optimal_camera_resolution :: "(int \<times> int) outcome"
  datetime_now :: real

text \<open>The \<^verbatim>\<open>except\<close> block of \<^verbatim>\<open>start_survey_monitoring\<close>.\<close>

definition start_survey_failed :: "service \<Rightarrow> bool \<times> service" where
  "start_survey_failed s = (False, s\<lparr>survey_monitoring := False\<rparr>)"

text \<open>The assignments after the camera is configured, and the thread start.\<close>

definition start_survey_state :: "survey_env \<Rightarrow> force_id \<Rightarrow> service \<Rightarrow> service" where
  "start_survey_state env force_id s =
     s\<lparr>survey_force_id := Present force_id,
       survey_detections := Present [],
       survey_monitoring := True,
       survey_thread_active := True,
       survey_start_time := Present (datetime_now env),
       survey_mode := True,
       survey_thread :=
         Present (Some (Thread ''_process_survey_frames_continuously_enhanced''))\<rparr>"

text \<open>\<^verbatim>\<open>start_survey_monitoring\<close>. It has no test of \<^verbatim>\<open>is_monitoring\<close> or
  \<^verbatim>\<open>survey_monitoring\<close>; an open camera is reused.\<close>

definition start_survey_monitoring :: "survey_env \<Rightarrow> force_id \<Rightarrow> service \<Rightarrow> bool \<times> service" where
  "start_survey_monitoring env force_id s =
     (let s1 = (if cap s = None then s\<lparr>cap := find_available_camera (camera_probes env)\<rparr> else s)
      in if cap s1 = None then start_survey_failed s1
         else
           (case get_camera_optimal_settings env of
              Raises e \<Rightarrow> start_survey_failed s1
            | Returns settings \<Rightarrow>
                let configured =
                      (if use_auto_resolution settings = Some True then
                         (case set_optimal_camera_resolution env of
                            Raises e \<Rightarrow> False
                          | Returns wh \<Rightarrow> True)
                       else width settings \<noteq> None \<and> height settings \<noteq> None)
                in if \<not> configured then start_survey_failed s1
                   else if detection_interval settings = None then start_survey_failed s1
                   else (True, start_survey_state env force_id s1)))"

text \<open>\<^verbatim>\<open>max(iterable, key=f)\<close>: the first element, in iteration order, whose key is the
  greatest; ValueError (here None) on an empty iterable.\<close>

fun py_max_key :: "('a \<Rightarrow> nat) \<Rightarrow> 'a list \<Rightarrow> 'a option" where
  "py_max_key f [] = None"
| "py_max_key f (x # xs) = Some (foldl (\<lambda>best y. if f y > f best then y else best) x xs)"

text \<open>The dict that \<^verbatim>\<open>stop_survey_monitoring\<close> returns; a key that a branch does not
  set is None.\<close>

record survey_result =
  res_force_id :: force_id
  res_session_id :: "int option option"
  avg_depression_score :: "real option"
  dominant_emotion :: "string option"
  detection_count :: "nat option"
  detections :: "survey_detection list option"
  message :: "string option"
  res_error :: "string option"

definition result_for :: "force_id \<Rightarrow> survey_result" where
  "result_for force_id =
     \<lparr> res_force_id = force_id, res_session_id = None, avg_depression_score = None,
       dominant_emotion = None, detection_count = None, detections = None,
       message = None, res_error = None \<rparr>"

text \<open>The list comprehension \<^verbatim>\<open>[d for d in self.survey_detections if 'score' in d and
  'emotion' in d]\<close>.\<close>

definition actual_detections_of :: "survey_detection list \<Rightarrow> survey_detection list" where
  "actual_detections_of ds = filter (\<lambda>d. sd_score d \<noteq> None \<and> sd_emotion d \<noteq> None) ds"

text \<open>\<^verbatim>\<open>max(set(emotions), key=emotions.count) if emotions else "Neutral"\<close>. The order in
  which Python iterates over \<^verbatim>\<open>set(emotions)\<close> depends on the strings' hashes, which
  vary from process to process; it is the argument \<open>set_iter\<close>.\<close>

definition most_common_emotion_of :: "(string list \<Rightarrow> string list) \<Rightarrow> string list \<Rightarrow> string" where
  "most_common_emotion_of set_iter emotions =
     (if emotions \<noteq> [] then
        (case py_max_key (count_list emotions) (set_iter emotions) of
           Some e \<Rightarrow> e
         | None \<Rightarrow> ''Neutral'')
      else ''Neutral'')"

text \<open>The \<^verbatim>\<open>try\<close> block of \<^verbatim>\<open>stop_survey_monitoring\<close>: the result, the state and the
  arguments of the background storage thread if one is started. When the attribute
  \<^verbatim>\<open>survey_thread\<close> is None, \<^verbatim>\<open>.is_alive()\<close> raises AttributeError and the
  \<^verbatim>\<open>except\<close> block returns the error dict with the text of the exception, in which
  \<open>CHR 0x27\<close> is the apostrophe.\<close>

definition stop_survey_body ::
  "(string list \<Rightarrow> string list) \<Rightarrow> force_id \<Rightarrow> int option \<Rightarrow> service
     \<Rightarrow> survey_result \<times> service \<times> (int \<times> force_id \<times> real) option" where
  "stop_survey_body set_iter force_id session_id s =
     (if \<not> survey_monitoring s then
        ((result_for force_id)\<lparr>message := Some ''No monitoring session active''\<rparr>, s, None)
      else
        let s1 = s\<lparr>survey_monitoring := False, survey_thread_active := False\<rparr>
        in if survey_thread s1 = Present None then
             ((result_for force_id)
                \<lparr>res_error := Some (CHR 0x27 # ''NoneType'' @ CHR 0x27 # '' object has no attribute ''
                                  @ CHR 0x27 # ''is_alive'' @ [CHR 0x27])\<rparr>,
              s1, None)
           else
             (case survey_detections s1 of
                Present (d # ds) \<Rightarrow>
                  let all_detections = d # ds;
                      actual_detections = actual_detections_of all_detections;
                      scores = map (\<lambda>d. the (sd_score d)) actual_detections;
                      emotions = map (\<lambda>d. the (sd_emotion d)) actual_detections;
                      avg_score = (if actual_detections \<noteq> []
                                   then calculate_peak_weighted_average scores else 0);
                      most_common_emotion =
                        (if actual_detections \<noteq> []
                         then most_common_emotion_of set_iter emotions
                         else ''No Detection'');
                      storage = (case session_id of
                                   None \<Rightarrow> None
                                 | Some i \<Rightarrow> if i \<noteq> 0 then Some (i, force_id, avg_score)
                                             else None)
                  in ((result_for force_id)
                        \<lparr>res_session_id := Some session_id,
                         avg_depression_score := Some avg_score,
                         dominant_emotion := Some most_common_emotion,
                         detection_count := Some (length all_detections),
                         detections := Some all_detections\<rparr>,
                      s1, storage)
              | _ \<Rightarrow>
                  ((result_for force_id)
                     \<lparr>res_session_id := Some session_id,
                      avg_depression_score := Some 0,
                      dominant_emotion := Some ''No Detection'',
                      detection_count := Some 0,
                      message := Some ''No emotion data collected''\<rparr>,
                   s1, None)))"

text \<open>The \<^verbatim>\<open>finally\<close> block: it runs on every path. Its own \<^verbatim>\<open>try\<close> ends at the
  AttributeError when \<^verbatim>\<open>survey_thread\<close> is None, after the two flags are cleared.\<close>

definition stop_survey_cleanup :: "service \<Rightarrow> service" where
  "stop_survey_cleanup s =
     (let s1 = s\<lparr>survey_monitoring := False, survey_thread_active := False\<rparr>
      in if survey_thread s1 = Present None then s1
         else s1\<lparr>cap := None,
                survey_mode := False,
                survey_force_id := Absent,
                survey_detections := Absent,
                survey_thread := Absent\<rparr>)"

definition stop_survey_monitoring ::
  "(string list \<Rightarrow> string list) \<Rightarrow> force_id \<Rightarrow> int option \<Rightarrow> service
     \<Rightarrow> survey_result \<times> service \<times> (int \<times> force_id \<times> real) option" where
  "stop_survey_monitoring set_iter force_id session_id s =
     (case stop_survey_body set_iter force_id session_id s of
        (results, s1, storage) \<Rightarrow> (results, stop_survey_cleanup s1, storage))"

text \<open>The dominant emotion in the specification's words: the most frequent label, and
  among equally frequent labels the one seen first in event order.\<close>

definition spec_dominant_emotion :: "string list \<Rightarrow> string option" where
  "spec_dominant_emotion emotions = py_max_key (count_list emotions) emotions"

text \<open>The list \<^verbatim>\<open>emotions = [d['emotion'] for d in actual_detections]\<close> of
  \<^verbatim>\<open>stop_survey_monitoring\<close>, as a function of the retained detections.\<close>

definition retained_emotions :: "survey_detection list \<Rightarrow> string list" where
  "retained_emotions ds = map (\<lambda>d. the (sd_emotion d)) (actual_detections_of ds)"

text \<open>The specification's session-level average is taken over the scores flushed for a
  subject during one session: the rows of \<^verbatim>\<open>cctv_detections\<close> with that monitoring id
  and that force id.\<close>

definition session_scores :: "database \<Rightarrow> nat option \<Rightarrow> force_id \<Rightarrow> real list" where
  "session_scores db mid force_id =
     map det_depression_score
       (filter (\<lambda>r. det_monitoring_id r = mid \<and> det_force_id r = force_id) (cctv_detections db))"

text \<open>What \<^verbatim>\<open>daily_depression_scores\<close> holds for a subject and a day.\<close>

definition persisted_scores :: "database \<Rightarrow> force_id \<Rightarrow> nat \<Rightarrow> real list" where
  "persisted_scores db force_id day =
     map depression_score
       (filter (\<lambda>r. daily_force_id r = force_id \<and> score_date r = day)
          (daily_depression_scores db))"

text \<open>The failure that the specification calls NoCameraAvailable: the exception
  \<^verbatim>\<open>start_monitoring\<close> raises when \<^verbatim>\<open>_find_available_camera\<close> returns None.\<close>

definition NoCameraAvailable :: error where
  "NoCameraAvailable =
     Exception ''Failed to start monitoring: Could not find any available camera - please connect a camera''"

section \<open>Concrete inputs\<close>

text \<open>A running General session, a camera environment in which everything works, one in
  which neither index gives a frame, and a running Survey session with two retained
  detections.\<close>

definition general_running :: service where
  "general_running =
     init_service\<lparr>cap := Some (VideoCapture 1), is_monitoring := True, monitoring_id := Some 7,
                   monitor_thread := Some (Thread ''_process_frames_continuously'')\<rparr>"

definition settings_ok :: optimal_settings where
  "settings_ok = \<lparr>use_auto_resolution = Some False, width = Some 1920, height = Some 1080,
                   fps = Some 10, detection_interval = Some 5\<rparr>"

definition survey_env_ok :: survey_env where
  "survey_env_ok = \<lparr>camera_probes = (\<lambda>i. Ready), get_camera_optimal_settings = Returns settings_ok,
                     set_optimal_camera_resolution = Returns (1920, 1080), datetime_now = 100\<rparr>"

definition no_camera :: "nat \<Rightarrow> probe" where
  "no_camera i = (if i = 1 then OpenedNoFrame else NotOpened)"

definition sad_entry :: survey_detection where
  "sad_entry = \<lparr>sd_timestamp = ''2025-01-01T10:00:00'', sd_emotion = Some ''Sad'',
                 sd_score = Some 0.8, sd_force_id = ''CRPF001'', sd_method = Some ''survey_enhanced''\<rparr>"

definition happy_entry :: survey_detection where
  "happy_entry = \<lparr>sd_timestamp = ''2025-01-01T10:00:01'', sd_emotion = Some ''Happy'',
                   sd_score = Some 0.2, sd_force_id = ''CRPF001'', sd_method = Some ''survey_enhanced''\<rparr>"

definition survey_started :: service where
  "survey_started = snd (start_survey_monitoring survey_env_ok ''CRPF001'' init_service)"

definition survey_running :: service where
  "survey_running = survey_started\<lparr>survey_detections := Present [sad_entry, happy_entry]\<rparr>"

text \<open>An iteration order of \<^verbatim>\<open>set(emotions)\<close> in which the label seen last comes
  first.\<close>

definition reverse_iteration :: "string list \<Rightarrow> string list" where
  "reverse_iteration emotions = rev (remdups emotions)"

text \<open>Two sessions of the same day, 3 and 7, with one flushed score each for the same
  soldier.\<close>

definition two_session_db :: database where
  "two_session_db =
     \<lparr>cctv_detections =
        [\<lparr>det_monitoring_id = Some 3, det_force_id = ''CRPF001'',
          detection_timestamp = (20250, 100), det_depression_score = 0.2\<rparr>,
         \<lparr>det_monitoring_id = Some 7, det_force_id = ''CRPF001'',
          detection_timestamp = (20250, 5000), det_depression_score = 0.8\<rparr>],
      daily_depression_scores = []\<rparr>"

text \<open>The running General session with two buffered detections of one soldier, and a
  frame in which that soldier is detected again while the database cannot be reached.\<close>

definition flush_state :: service where
  "flush_state =
     general_running
       \<lparr>detection_buffer :=
          [''CRPF001'' \<mapsto>
             [\<lparr>b_score = 0.45, b_emotion = ''Neutral'', b_timestamp = 10,
               b_face_coords = (0, 0, 10, 10)\<rparr>,
              \<lparr>b_score = 0.9, b_emotion = ''Sad'', b_timestamp = 12,
               b_face_coords = (0, 0, 10, 10)\<rparr>]],
        last_average_time := [''CRPF001'' \<mapsto> 10]\<rparr>"

definition frame_db_down :: frame_env where
  "frame_db_down =
     \<lparr>read_ok = True,
      detect_face_and_emotion = Some (''CRPF001'', ''Sad'', 0.9, (0, 0, 10, 10)),
      detect_emotion_for_survey = (\<lambda>force_id. None),
      current_time = 13,
      flush_fault = ConnectionFails ''Can not connect to MySQL server'',
      flush_now = (20250, 6000)\<rparr>"

section \<open>Properties of the aggregation engine\<close>

subsection \<open>Evaluating the rounding\<close>

lemmas fl_eval = fl_def float_exponent.simps round_half_even_def Let_def power_int_minus

lemmas pwa_eval = calculate_peak_weighted_average_def collect_significant_def float_sum_def
  NEUTRAL_BASELINE_def SIGNIFICANCE_THRESHOLD_def

lemma pwa_three_neutral:
  "calculate_peak_weighted_average [fl 0.45, fl 0.45, fl 0.45] = fl 0.45"
  apply (simp add: pwa_eval)
  apply (simp add: fl_eval)
  done





subsection \<open>The loops of the source and the reference definitions\<close>











subsection \<open>Rounding error of the visual peak-weighted average\<close>











lemma weights: "fl 0.7 = 3152519739159347 / 2 ^ 52" "fl 0.3 = 5404319552844595 / 2 ^ 54"
  by (simp_all add: fl_eval)

lemma weights_sum: "fl 0.7 + fl 0.3 = 1 - 1 / 2 ^ 54"
  by (simp add: weights)






















text \<open>
  Claim C9. The visual peak-weighted aggregation is not associative: there are two
  non-empty score lists for which aggregating their concatenation differs from aggregating
  the two sub-window results. The lists are the floats [0.45, 0.45, 0.45] and [0.9]: the
  union gives 0.79875, the two sub-window results 0.45 and 0.9 give 0.8325.
\<close>

theorem C9_peak_weighted_average_not_associative:
  "\<exists>A B. A \<noteq> [] \<and> B \<noteq> [] \<and>
     calculate_peak_weighted_average (A @ B) \<noteq>
     calculate_peak_weighted_average
       [calculate_peak_weighted_average A, calculate_peak_weighted_average B]"
proof -
  have u: "calculate_peak_weighted_average ([fl 0.45, fl 0.45, fl 0.45] @ [fl 0.9]) = fl 0.79875"
    apply (simp add: pwa_eval)
    apply (simp add: fl_eval)
    done
  have "calculate_peak_weighted_average [fl 0.9] = fl 0.9"
    by (simp add: calculate_peak_weighted_average_def)
  then have "calculate_peak_weighted_average
          [calculate_peak_weighted_average [fl 0.45, fl 0.45, fl 0.45],
           calculate_peak_weighted_average [fl 0.9]]
        = calculate_peak_weighted_average [fl 0.45, fl 0.9]"
    using pwa_three_neutral by simp
  moreover have "calculate_peak_weighted_average [fl 0.45, fl 0.9] = fl 0.8325"
    apply (simp add: pwa_eval)
    apply (simp add: fl_eval)
    done
  moreover have "fl 0.79875 \<noteq> fl 0.8325" by (simp add: fl_eval)
  ultimately have "calculate_peak_weighted_average ([fl 0.45, fl 0.45, fl 0.45] @ [fl 0.9]) \<noteq>
        calculate_peak_weighted_average
          [calculate_peak_weighted_average [fl 0.45, fl 0.45, fl 0.45],
           calculate_peak_weighted_average [fl 0.9]]"
    using u by simp
  moreover have "[fl 0.45, fl 0.45, fl 0.45] \<noteq> ([] :: real list)" "[fl 0.9] \<noteq> ([] :: real list)"
    by simp_all
  ultimately show ?thesis by blast
qed

section \<open>Properties of the session controller\<close>

text \<open>
  Claim C1, as amended. A call of \<^verbatim>\<open>start_monitoring\<close> while a General session is
  running is rejected (it returns False) and leaves every attribute of the service
  unchanged.
\<close>

theorem C1_start_general_rejected_while_general_running:
  "is_monitoring s \<Longrightarrow> start_monitoring probes dbo date s = (Inr False, s)"
  by (simp add: start_monitoring_def)

theorem C1_start_general_rejected_while_general_running_witness:
  "is_monitoring general_running \<and>
   start_monitoring (\<lambda>i. Ready) (Inserted 8) ''2025-01-01'' general_running
     = (Inr False, general_running)"
  using C1_start_general_rejected_while_general_running
          [of general_running "\<lambda>i. Ready" "Inserted 8" "''2025-01-01''"]
  by (simp add: general_running_def)

text \<open>
  Claim C1 as stated fails. A Survey start during a running General session returns True
  and both sessions are then active; a Survey start during a running Survey session
  returns True and empties the retained detections; a General start during a running
  Survey session drops the Survey session's camera handle.
\<close>

theorem C1_start_not_rejected_counterexample:
  "is_monitoring general_running \<and>
   fst (start_survey_monitoring survey_env_ok ''CRPF001'' general_running) = True \<and>
   survey_monitoring (snd (start_survey_monitoring survey_env_ok ''CRPF001'' general_running)) \<and>
   is_monitoring (snd (start_survey_monitoring survey_env_ok ''CRPF001'' general_running)) \<and>
   survey_monitoring survey_running \<and>
   survey_detections survey_running = Present [sad_entry, happy_entry] \<and>
   fst (start_survey_monitoring survey_env_ok ''CRPF002'' survey_running) = True \<and>
   survey_detections (snd (start_survey_monitoring survey_env_ok ''CRPF002'' survey_running))
     = Present [] \<and>
   cap survey_running = Some (VideoCapture 1) \<and>
   fst (start_monitoring no_camera (Inserted 8) ''2025-01-01'' survey_running)
     = Inl NoCameraAvailable \<and>
   cap (snd (start_monitoring no_camera (Inserted 8) ''2025-01-01'' survey_running)) = None"
  by (simp add: general_running_def survey_running_def survey_started_def
      start_survey_monitoring_def start_survey_state_def survey_env_ok_def settings_ok_def
      init_service_def find_available_camera_def start_monitoring_def start_cleanup_def
      no_camera_def NoCameraAvailable_def Let_def)

text \<open>
  Claim C5. When \<^verbatim>\<open>start_monitoring\<close> is not rejected by its guard and neither index 1
  nor index 0 gives a handle that opens and returns a frame, the call fails with
  NoCameraAvailable, and afterwards the camera handle is None, the monitoring id is None
  and the monitoring flag is cleared; no other attribute changes.
\<close>

theorem C5_start_general_without_camera:
  assumes "\<not> is_monitoring s" and "probes 1 \<noteq> Ready" and "probes 0 \<noteq> Ready"
  shows "start_monitoring probes dbo date s =
           (Inl NoCameraAvailable,
            s\<lparr>cap := None, is_monitoring := False, monitoring_id := None\<rparr>) \<and>
         cap (snd (start_monitoring probes dbo date s)) = None \<and>
         monitoring_id (snd (start_monitoring probes dbo date s)) = None \<and>
         \<not> is_monitoring (snd (start_monitoring probes dbo date s))"
  using assms
  by (simp add: start_monitoring_def start_cleanup_def find_available_camera_def
        NoCameraAvailable_def Let_def)

theorem C5_start_general_without_camera_witness:
  "\<not> is_monitoring init_service \<and> no_camera 1 \<noteq> Ready \<and> no_camera 0 \<noteq> Ready \<and>
   start_monitoring no_camera (Inserted 8) ''2025-01-01'' init_service
     = (Inl NoCameraAvailable, init_service) \<and>
   cap (snd (start_monitoring no_camera (Inserted 8) ''2025-01-01'' init_service)) = None \<and>
   monitoring_id (snd (start_monitoring no_camera (Inserted 8) ''2025-01-01'' init_service))
     = None \<and>
   \<not> is_monitoring (snd (start_monitoring no_camera (Inserted 8) ''2025-01-01'' init_service))"
  using C5_start_general_without_camera [of init_service no_camera "Inserted 8" "''2025-01-01''"]
  by (simp add: init_service_def no_camera_def)

lemma start_survey_active:
  assumes "start_survey_monitoring env force_id s = (True, s')"
  shows "survey_monitoring s' \<and> survey_thread s' \<noteq> Present None \<and> survey_detections s' = Present []"
  using assms
  by (auto simp: start_survey_monitoring_def start_survey_failed_def start_survey_state_def
        Let_def split: if_splits outcome.splits)

lemma survey_started_ok:
  "start_survey_monitoring survey_env_ok ''CRPF001'' init_service = (True, survey_started)"
  by (simp add: survey_started_def start_survey_monitoring_def survey_env_ok_def settings_ok_def
      init_service_def find_available_camera_def Let_def)

text \<open>
  Claim C8. Stopping an active Survey session in which no detection was recorded returns
  a result with detection count 0, average depression score 0 and dominant emotion
  "No Detection"; it is the dict of the no-data branch, not the error dict. The function
  has no raising path: its \<^verbatim>\<open>try\<close> catches every exception and so does the cleanup.
\<close>

theorem C8_stop_survey_without_detections:
  assumes "survey_monitoring s" and "survey_thread s \<noteq> Present None"
    and "survey_detections s = Present [] \<or> survey_detections s = Absent"
  shows "fst (stop_survey_monitoring set_iter force_id session_id s) =
           (result_for force_id)
             \<lparr>res_session_id := Some session_id,
              avg_depression_score := Some 0,
              dominant_emotion := Some ''No Detection'',
              detection_count := Some 0,
              message := Some ''No emotion data collected''\<rparr>"
  using assms
  by (auto simp: stop_survey_monitoring_def stop_survey_body_def Let_def)

theorem C8_stop_survey_without_detections_witness:
  "survey_monitoring survey_started \<and> survey_thread survey_started \<noteq> Present None \<and>
   (survey_detections survey_started = Present [] \<or> survey_detections survey_started = Absent) \<and>
   fst (stop_survey_monitoring reverse_iteration ''CRPF001'' (Some 12) survey_started) =
     (result_for ''CRPF001'')
       \<lparr>res_session_id := Some (Some 12),
        avg_depression_score := Some 0,
        dominant_emotion := Some ''No Detection'',
        detection_count := Some 0,
        message := Some ''No emotion data collected''\<rparr>"
  using C8_stop_survey_without_detections
          [of survey_started reverse_iteration "''CRPF001''" "Some 12"]
    start_survey_active [OF survey_started_ok]
  by simp

lemma foldl_max_key:
  "foldl (\<lambda>best y. if f y > f best then y else best) x xs \<in> set (x # xs) \<and>
   (\<forall>y\<in>set (x # xs). (f y :: nat) \<le> f (foldl (\<lambda>best y. if f y > f best then y else best) x xs))"
proof (induction xs arbitrary: x)
  case Nil
  show ?case by simp
next
  case (Cons a xs)
  let ?x' = "if f a > f x then a else x"
  have ih: "foldl (\<lambda>best y. if f y > f best then y else best) ?x' xs \<in> set (?x' # xs) \<and>
   (\<forall>y\<in>set (?x' # xs). f y \<le> f (foldl (\<lambda>best y. if f y > f best then y else best) ?x' xs))"
    by (rule Cons.IH)
  have step: "foldl (\<lambda>best y. if f y > f best then y else best) x (a # xs)
        = foldl (\<lambda>best y. if f y > f best then y else best) ?x' xs" by simp
  show ?case unfolding step using ih by (auto split: if_splits intro: order_trans)
qed

lemma py_max_key_greatest:
  assumes "xs \<noteq> []"
  shows "\<exists>m. py_max_key f xs = Some m \<and> m \<in> set xs \<and> (\<forall>y\<in>set xs. f y \<le> f m)"
proof (cases xs)
  case Nil with assms show ?thesis by simp
next
  case (Cons x rest)
  then show ?thesis using foldl_max_key [of f x rest] by simp
qed

lemma most_common_is_mode:
  assumes "emotions \<noteq> []" and "set (set_iter emotions) = set emotions"
  shows "most_common_emotion_of set_iter emotions \<in> set emotions \<and>
         (\<forall>e. count_list emotions e \<le> count_list emotions (most_common_emotion_of set_iter emotions))"
proof -
  from assms have "set_iter emotions \<noteq> []" by auto
  then obtain m where m: "py_max_key (count_list emotions) (set_iter emotions) = Some m"
      "m \<in> set (set_iter emotions)"
      "\<forall>y\<in>set (set_iter emotions). count_list emotions y \<le> count_list emotions m"
    using py_max_key_greatest by blast
  have eq: "most_common_emotion_of set_iter emotions = m"
    using assms(1) m(1) by (simp add: most_common_emotion_of_def)
  have "count_list emotions e \<le> count_list emotions m" for e
  proof (cases "e \<in> set emotions")
    case True
    then show ?thesis using m(3) assms(2) by simp
  next
    case False
    then show ?thesis by (simp add: count_list_0_iff)
  qed
  then show ?thesis using eq m(2) assms(2) by simp
qed

lemma foldl_max_key_first:
  "\<exists>pre post. x # xs = pre @ foldl (\<lambda>best y. if f y > f best then y else best) x xs # post \<and>
     (\<forall>y\<in>set pre. (f y :: nat) < f (foldl (\<lambda>best y. if f y > f best then y else best) x xs)) \<and>
     (\<forall>y\<in>set post. f y \<le> f (foldl (\<lambda>best y. if f y > f best then y else best) x xs))"
proof (induction xs arbitrary: x)
  case Nil
  have "[x] = [] @ x # [] \<and> (\<forall>y\<in>set []. f y < f x) \<and> (\<forall>y\<in>set []. f y \<le> f x)"
    by simp
  then show ?case unfolding foldl_Nil by blast
next
  case (Cons a xs)
  let ?step = "\<lambda>best y. if f y > f best then y else best"
  show ?case
  proof (cases "f a > f x")
    case True
    define m where "m = foldl ?step a xs"
    from Cons.IH [of a] obtain pre post where
      d: "a # xs = pre @ m # post" "\<forall>y\<in>set pre. f y < f m" "\<forall>y\<in>set post. f y \<le> f m"
      unfolding m_def by blast
    have "a \<in> set (pre @ m # post)" using d(1) by (metis list.set_intros(1))
    then have "f a \<le> f m" using d(2,3) by (auto intro: less_imp_le)
    then have "f x < f m" using True by linarith
    then have "x # a # xs = (x # pre) @ m # post \<and> (\<forall>y\<in>set (x # pre). f y < f m) \<and>
               (\<forall>y\<in>set post. f y \<le> f m)" using d by simp
    moreover have "foldl ?step x (a # xs) = m" using True by (simp add: m_def)
    ultimately show ?thesis by metis
  next
    case False
    define m where "m = foldl ?step x xs"
    from Cons.IH [of x] obtain pre post where
      d: "x # xs = pre @ m # post" "\<forall>y\<in>set pre. f y < f m" "\<forall>y\<in>set post. f y \<le> f m"
      unfolding m_def by blast
    have fm: "foldl ?step x (a # xs) = m" using False by (simp add: m_def)
    show ?thesis
    proof (cases pre)
      case Nil
      with d have "x = m" "xs = post" by simp_all
      then have "x # a # xs = [] @ m # (a # post) \<and> (\<forall>y\<in>set []. f y < f m) \<and>
               (\<forall>y\<in>set (a # post). f y \<le> f m)" using d(3) False by simp
      then show ?thesis unfolding fm by blast
    next
      case (Cons p pre')
      with d have px: "p = x" "xs = pre' @ m # post" by simp_all
      have "f x < f m" using d(2) Cons px by simp
      then have "f a < f m" using False by linarith
      then have "x # a # xs = (x # a # pre') @ m # post \<and> (\<forall>y\<in>set (x # a # pre'). f y < f m) \<and>
               (\<forall>y\<in>set post. f y \<le> f m)" using d Cons px by simp
      then show ?thesis unfolding fm by blast
    qed
  qed
qed

lemma py_max_key_first:
  assumes "py_max_key f xs = Some m"
  shows "\<exists>pre post. xs = pre @ m # post \<and> (\<forall>y\<in>set pre. f y < f m) \<and> (\<forall>y\<in>set post. f y \<le> f m)"
proof (cases xs)
  case Nil
  with assms show ?thesis by simp
next
  case (Cons x rest)
  with assms have "m = foldl (\<lambda>best y. if f y > f best then y else best) x rest" by simp
  then show ?thesis using foldl_max_key_first [of x rest f] Cons by simp
qed

lemma most_common_is_first:
  assumes "emotions \<noteq> []" and "set (set_iter emotions) = set emotions"
  shows "\<exists>pre post. set_iter emotions = pre @ most_common_emotion_of set_iter emotions # post \<and>
           (\<forall>y\<in>set pre. count_list emotions y
                            < count_list emotions (most_common_emotion_of set_iter emotions)) \<and>
           (\<forall>y\<in>set post. count_list emotions y
                            \<le> count_list emotions (most_common_emotion_of set_iter emotions))"
proof -
  from assms have "set_iter emotions \<noteq> []" by auto
  then obtain m where m: "py_max_key (count_list emotions) (set_iter emotions) = Some m"
    using py_max_key_greatest by blast
  have eq: "most_common_emotion_of set_iter emotions = m"
    using assms(1) m by (simp add: most_common_emotion_of_def)
  show ?thesis unfolding eq using py_max_key_first [OF m] .
qed

lemma stop_survey_dominant:
  assumes "survey_monitoring s" and "survey_thread s \<noteq> Present None"
    and "survey_detections s = Present ds" and "actual_detections_of ds \<noteq> []"
  shows "dominant_emotion (fst (stop_survey_monitoring set_iter force_id session_id s))
           = Some (most_common_emotion_of set_iter (retained_emotions ds))"
proof -
  from assms(4) obtain d rest where "ds = d # rest"
    by (cases ds) (auto simp: actual_detections_of_def)
  with assms show ?thesis
    by (simp add: stop_survey_monitoring_def stop_survey_body_def Let_def retained_emotions_def)
qed

lemma survey_running_facts:
  "survey_monitoring survey_running \<and> survey_thread survey_running \<noteq> Present None \<and>
   survey_detections survey_running = Present [sad_entry, happy_entry] \<and>
   actual_detections_of [sad_entry, happy_entry] = [sad_entry, happy_entry] \<and>
   retained_emotions [sad_entry, happy_entry] = [''Sad'', ''Happy'']"
  by (simp add: survey_running_def survey_started_def start_survey_monitoring_def
      survey_env_ok_def settings_ok_def init_service_def find_available_camera_def Let_def
      start_survey_state_def actual_detections_of_def retained_emotions_def sad_entry_def happy_entry_def
      del: not_None_eq)

text \<open>
  Claim C7, as amended. When an active Survey session that retained at least one
  detection with a score and an emotion is stopped, the dominant emotion of the result is
  a most frequent label of the retained detections: it occurs among them and no label
  occurs more often. Among equally frequent labels it is the first one in the iteration
  order of Python's set of the labels: every label before it in that order occurs less
  often, and no label after it occurs more often.
\<close>

theorem C7_dominant_emotion_is_most_frequent:
  assumes "survey_monitoring s" and "survey_thread s \<noteq> Present None"
    and "survey_detections s = Present ds" and "actual_detections_of ds \<noteq> []"
    and "set (set_iter (retained_emotions ds)) = set (retained_emotions ds)"
  shows "dominant_emotion (fst (stop_survey_monitoring set_iter force_id session_id s))
           = Some (most_common_emotion_of set_iter (retained_emotions ds)) \<and>
         most_common_emotion_of set_iter (retained_emotions ds) \<in> set (retained_emotions ds) \<and>
         (\<forall>e. count_list (retained_emotions ds) e
                \<le> count_list (retained_emotions ds)
                     (most_common_emotion_of set_iter (retained_emotions ds))) \<and>
         (\<exists>pre post.
            set_iter (retained_emotions ds)
              = pre @ most_common_emotion_of set_iter (retained_emotions ds) # post \<and>
            (\<forall>y\<in>set pre. count_list (retained_emotions ds) y
                             < count_list (retained_emotions ds)
                                 (most_common_emotion_of set_iter (retained_emotions ds))) \<and>
            (\<forall>y\<in>set post. count_list (retained_emotions ds) y
                              \<le> count_list (retained_emotions ds)
                                   (most_common_emotion_of set_iter (retained_emotions ds))))"
proof -
  have ne: "retained_emotions ds \<noteq> []" using assms(4) by (simp add: retained_emotions_def)
  have a: "dominant_emotion (fst (stop_survey_monitoring set_iter force_id session_id s))
           = Some (most_common_emotion_of set_iter (retained_emotions ds))"
    using assms(1-4) by (rule stop_survey_dominant)
  have b: "most_common_emotion_of set_iter (retained_emotions ds) \<in> set (retained_emotions ds) \<and>
         (\<forall>e. count_list (retained_emotions ds) e
                \<le> count_list (retained_emotions ds)
                     (most_common_emotion_of set_iter (retained_emotions ds)))"
    using ne assms(5) by (rule most_common_is_mode)
  have c: "\<exists>pre post.
            set_iter (retained_emotions ds)
              = pre @ most_common_emotion_of set_iter (retained_emotions ds) # post \<and>
            (\<forall>y\<in>set pre. count_list (retained_emotions ds) y
                             < count_list (retained_emotions ds)
                                 (most_common_emotion_of set_iter (retained_emotions ds))) \<and>
            (\<forall>y\<in>set post. count_list (retained_emotions ds) y
                              \<le> count_list (retained_emotions ds)
                                   (most_common_emotion_of set_iter (retained_emotions ds)))"
    using ne assms(5) by (rule most_common_is_first)
  from a b c show ?thesis by blast
qed

theorem C7_dominant_emotion_is_most_frequent_witness:
  "survey_monitoring survey_running \<and> survey_thread survey_running \<noteq> Present None \<and>
   survey_detections survey_running = Present [sad_entry, happy_entry] \<and>
   actual_detections_of [sad_entry, happy_entry] \<noteq> [] \<and>
   set (reverse_iteration (retained_emotions [sad_entry, happy_entry]))
     = set (retained_emotions [sad_entry, happy_entry]) \<and>
   dominant_emotion (fst (stop_survey_monitoring reverse_iteration ''CRPF001'' None survey_running))
     = Some (most_common_emotion_of reverse_iteration (retained_emotions [sad_entry, happy_entry])) \<and>
   most_common_emotion_of reverse_iteration (retained_emotions [sad_entry, happy_entry])
     \<in> set (retained_emotions [sad_entry, happy_entry]) \<and>
   (\<forall>e. count_list (retained_emotions [sad_entry, happy_entry]) e
          \<le> count_list (retained_emotions [sad_entry, happy_entry])
               (most_common_emotion_of reverse_iteration
                  (retained_emotions [sad_entry, happy_entry])))"
proof -
  have h: "survey_monitoring survey_running" "survey_thread survey_running \<noteq> Present None"
    "survey_detections survey_running = Present [sad_entry, happy_entry]"
    "actual_detections_of [sad_entry, happy_entry] \<noteq> []"
    using survey_running_facts by simp_all
  have i: "set (reverse_iteration (retained_emotions [sad_entry, happy_entry]))
     = set (retained_emotions [sad_entry, happy_entry])"
    by (simp add: reverse_iteration_def)
  from C7_dominant_emotion_is_most_frequent
         [of survey_running "[sad_entry, happy_entry]" reverse_iteration "''CRPF001''" None] h i
  show ?thesis by blast
qed

text \<open>
  Claim C7 as stated fails. The session retained a Sad and then a Happy detection, one
  each. When the set of labels is iterated with Happy first, the dominant emotion of the
  result is Happy; the label seen first in event order is Sad.
\<close>

theorem C7_tie_not_first_seen_counterexample:
  "survey_detections survey_running = Present [sad_entry, happy_entry] \<and>
   retained_emotions [sad_entry, happy_entry] = [''Sad'', ''Happy''] \<and>
   reverse_iteration [''Sad'', ''Happy''] = [''Happy'', ''Sad''] \<and>
   dominant_emotion (fst (stop_survey_monitoring reverse_iteration ''CRPF001'' None survey_running))
     = Some ''Happy'' \<and>
   spec_dominant_emotion [''Sad'', ''Happy''] = Some ''Sad''"
  by (simp add: survey_running_def survey_started_def start_survey_monitoring_def
      survey_env_ok_def settings_ok_def init_service_def find_available_camera_def Let_def
      start_survey_state_def actual_detections_of_def retained_emotions_def sad_entry_def
      happy_entry_def stop_survey_monitoring_def stop_survey_body_def
      most_common_emotion_of_def reverse_iteration_def spec_dominant_emotion_def
      del: not_None_eq)

section \<open>Properties of the end-of-session average and of the flush\<close>

lemma store_keeps_detections:
  "cctv_detections (store_daily_average day db g) = cctv_detections db"
  by (simp add: store_daily_average_def Let_def split: option.splits)

lemma store_keeps_todays_scores:
  "todays_scores (store_daily_average day db g) f day' = todays_scores db f day'"
  by (simp add: todays_scores_def store_keeps_detections)

lemma foldl_store_keeps_todays_scores:
  "todays_scores (foldl (store_daily_average day) db gs) f day' = todays_scores db f day'"
  by (induction gs arbitrary: db) (simp_all add: store_keeps_todays_scores)

lemma sql_avg_mean: "xs \<noteq> [] \<Longrightarrow> sql_avg xs = Some (mean xs)"
  by (simp add: sql_avg_def mean_def)

lemma update_matching_rows:
  "map depression_score
     (filter (\<lambda>r. daily_force_id r = f \<and> score_date r = day)
        (map (\<lambda>r. if daily_force_id r = f \<and> score_date r = day
                   then r\<lparr>depression_score := a\<rparr> else r) rows))
   = replicate (length (filter (\<lambda>r. daily_force_id r = f \<and> score_date r = day) rows)) a"
  by (induction rows) simp_all

lemma update_other_rows:
  "g \<noteq> f \<Longrightarrow>
   map depression_score
     (filter (\<lambda>r. daily_force_id r = f \<and> score_date r = day)
        (map (\<lambda>r. if daily_force_id r = g \<and> score_date r = day
                   then r\<lparr>depression_score := a\<rparr> else r) rows))
   = map depression_score (filter (\<lambda>r. daily_force_id r = f \<and> score_date r = day) rows)"
  by (induction rows) simp_all

lemma store_own:
  assumes "todays_scores db f day \<noteq> []"
  shows "set (persisted_scores (store_daily_average day db f) f day) = {mean (todays_scores db f day)}"
proof (cases "filter (\<lambda>r. daily_force_id r = f \<and> score_date r = day) (daily_depression_scores db) = []")
  case True
  then show ?thesis using assms
    by (simp add: store_daily_average_def sql_avg_mean persisted_scores_def Let_def)
next
  case False
  then have "0 < length (filter (\<lambda>r. daily_force_id r = f \<and> score_date r = day)
                 (daily_depression_scores db))" by simp
  then show ?thesis using False assms
    by (simp add: store_daily_average_def sql_avg_mean persisted_scores_def Let_def
          update_matching_rows del: length_greater_0_conv)
qed

lemma store_other:
  assumes "g \<noteq> f"
  shows "persisted_scores (store_daily_average day db g) f day = persisted_scores db f day"
proof (cases "sql_avg (todays_scores db g day)")
  case None
  then show ?thesis by (simp add: store_daily_average_def)
next
  case (Some a)
  show ?thesis
  proof (cases "filter (\<lambda>r. daily_force_id r = g \<and> score_date r = day) (daily_depression_scores db) = []")
    case True
    with Some assms show ?thesis
      by (simp add: store_daily_average_def persisted_scores_def Let_def)
  next
    case False
    with Some assms show ?thesis
      by (simp add: store_daily_average_def persisted_scores_def Let_def update_other_rows)
  qed
qed

lemma store_preserves:
  assumes "todays_scores db f day \<noteq> []"
    and "set (persisted_scores db f day) = {mean (todays_scores db f day)}"
  shows "set (persisted_scores (store_daily_average day db g) f day) = {mean (todays_scores db f day)}"
proof (cases "g = f")
  case True
  then show ?thesis using store_own [OF assms(1)] by simp
next
  case False
  then show ?thesis using assms(2) by (simp add: store_other)
qed

lemma foldl_store_preserves:
  assumes "todays_scores db f day \<noteq> []"
    and "set (persisted_scores db f day) = {mean (todays_scores db f day)}"
  shows "set (persisted_scores (foldl (store_daily_average day) db gs) f day)
           = {mean (todays_scores db f day)}"
  using assms
proof (induction gs arbitrary: db)
  case Nil
  then show ?case by simp
next
  case (Cons g gs)
  have a: "todays_scores (store_daily_average day db g) f day \<noteq> []"
    using Cons.prems(1) by (simp add: store_keeps_todays_scores)
  have b: "set (persisted_scores (store_daily_average day db g) f day)
             = {mean (todays_scores (store_daily_average day db g) f day)}"
    using store_preserves [OF Cons.prems] by (simp add: store_keeps_todays_scores)
  show ?case using Cons.IH [OF a b] by (simp add: store_keeps_todays_scores)
qed

lemma foldl_store_member:
  assumes "f \<in> set gs" and "todays_scores db f day \<noteq> []"
  shows "set (persisted_scores (foldl (store_daily_average day) db gs) f day)
           = {mean (todays_scores db f day)}"
  using assms
proof (induction gs arbitrary: db)
  case Nil
  then show ?case by simp
next
  case (Cons g gs)
  have a: "todays_scores (store_daily_average day db g) f day \<noteq> []"
    using Cons.prems(2) by (simp add: store_keeps_todays_scores)
  show ?case
  proof (cases "g = f")
    case True
    have b: "set (persisted_scores (store_daily_average day db g) f day)
             = {mean (todays_scores (store_daily_average day db g) f day)}"
      using store_own [OF Cons.prems(2)] True by (simp add: store_keeps_todays_scores)
    show ?thesis using foldl_store_preserves [OF a b] by (simp add: store_keeps_todays_scores)
  next
    case False
    with Cons.prems(1) have "f \<in> set gs" by simp
    from Cons.IH [OF this a] show ?thesis by (simp add: store_keeps_todays_scores)
  qed
qed

text \<open>
  Claim C4, as amended. When \<^verbatim>\<open>stop_monitoring\<close> ends a running General session and
  the database calls succeed, it returns True, and for every subject that has a row in this
  session and at least one row dated today, every value that
  \<^verbatim>\<open>daily_depression_scores\<close> then holds for that subject and today is the
  arithmetic mean of all the subject's flushed scores dated today, whichever session
  recorded them.
\<close>

theorem C4_stop_general_persists_daily_mean:
  assumes "is_monitoring s"
    and "force_id \<in> set (session_force_ids db (monitoring_id s))"
    and "todays_scores db force_id (DATE now) \<noteq> []"
  shows "fst (stop_monitoring NoFault now s db) = Inr True \<and>
         set (persisted_scores (snd (snd (stop_monitoring NoFault now s db))) force_id (DATE now))
           = {mean (todays_scores db force_id (DATE now))}"
  using assms
    foldl_store_member [of force_id "session_force_ids db (monitoring_id s)" db "DATE now"]
  by (simp add: stop_monitoring_def Let_def)

theorem C4_stop_general_persists_daily_mean_witness:
  "is_monitoring general_running \<and>
   ''CRPF001'' \<in> set (session_force_ids two_session_db (monitoring_id general_running)) \<and>
   todays_scores two_session_db ''CRPF001'' (DATE (20250, 6000)) \<noteq> [] \<and>
   fst (stop_monitoring NoFault (20250, 6000) general_running two_session_db) = Inr True \<and>
   set (persisted_scores
          (snd (snd (stop_monitoring NoFault (20250, 6000) general_running two_session_db)))
          ''CRPF001'' (DATE (20250, 6000)))
     = {mean (todays_scores two_session_db ''CRPF001'' (DATE (20250, 6000)))}"
proof -
  have h: "is_monitoring general_running"
    "''CRPF001'' \<in> set (session_force_ids two_session_db (monitoring_id general_running))"
    "todays_scores two_session_db ''CRPF001'' (DATE (20250, 6000)) \<noteq> []"
    by (simp_all add: general_running_def init_service_def two_session_db_def
          session_force_ids_def todays_scores_def DATE_def)
  show ?thesis using C4_stop_general_persists_daily_mean [OF h] h by simp
qed

text \<open>
  Claim C4 as stated fails. Session 7 flushed the single score 0.8 for the soldier, so
  the mean over the session is 0.8; session 3 of the same day had flushed 0.2. Stopping
  session 7 persists 0.5.
\<close>

theorem C4_session_mean_counterexample:
  "is_monitoring general_running \<and> monitoring_id general_running = Some 7 \<and>
   session_scores two_session_db (Some 7) ''CRPF001'' = [0.8] \<and>
   mean (session_scores two_session_db (Some 7) ''CRPF001'') = 0.8 \<and>
   fst (stop_monitoring NoFault (20250, 6000) general_running two_session_db) = Inr True \<and>
   persisted_scores
     (snd (snd (stop_monitoring NoFault (20250, 6000) general_running two_session_db)))
     ''CRPF001'' 20250 = [0.5]"
  by (simp add: general_running_def init_service_def two_session_db_def session_scores_def
      mean_def stop_monitoring_def Let_def session_force_ids_def DATE_def
      store_daily_average_def todays_scores_def sql_avg_def persisted_scores_def)

lemma flush_connection_failure:
  assumes "detection_buffer s f = Some buffer" and "buffer \<noteq> []"
  shows "calculate_and_store_average (ConnectionFails e) now f t s db
           = (Inl (UnboundLocalError ''conn''), s, db)"
  using assms by (simp add: calculate_and_store_average_def Let_def)

lemma flush_statement_failure:
  assumes "detection_buffer s f = Some buffer"
  shows "calculate_and_store_average (StatementFails e) now f t s db = (Inr (), s, db)"
  using assms by (simp add: calculate_and_store_average_def Let_def)

lemma flush_success:
  assumes "detection_buffer s f = Some buffer" and "buffer \<noteq> []"
  shows "calculate_and_store_average NoFault now f t s db
           = (Inr (),
              s\<lparr>detection_buffer := (detection_buffer s)(f \<mapsto> []),
                last_average_time := (last_average_time s)(f \<mapsto> t)\<rparr>,
              db\<lparr>cctv_detections := cctv_detections db @
                   [\<lparr>det_monitoring_id = monitoring_id s, det_force_id = f,
                     detection_timestamp = now,
                     det_depression_score = calculate_peak_weighted_average (map b_score buffer)\<rparr>]\<rparr>)"
  using assms by (simp add: calculate_and_store_average_def Let_def)

text \<open>
  Claim C10 at the input where it fails. The buffer of the soldier holds two detections
  and \<^verbatim>\<open>get_connection\<close> raises. The flush does not return: it raises
  UnboundLocalError, and so does \<^verbatim>\<open>process_frame\<close>, its caller. The service state
  and the database are unchanged by the flush, as the claim says.
\<close>

theorem C10_flush_raises_when_connection_fails:
  "calculate_and_store_average (ConnectionFails ''Can not connect to MySQL server'')
     (20250, 6000) ''CRPF001'' 13 flush_state two_session_db
     = (Inl (UnboundLocalError ''conn''), flush_state, two_session_db) \<and>
   fst (process_frame frame_db_down flush_state two_session_db)
     = Inl (UnboundLocalError ''conn'')"
proof -
  have a: "calculate_and_store_average (ConnectionFails ''Can not connect to MySQL server'')
     (20250, 6000) ''CRPF001'' 13 flush_state two_session_db
     = (Inl (UnboundLocalError ''conn''), flush_state, two_session_db)"
    by (rule flush_connection_failure
          [where buffer = "the (detection_buffer flush_state ''CRPF001'')"])
       (simp_all add: flush_state_def)
  have b: "fst (process_frame frame_db_down flush_state two_session_db)
     = Inl (UnboundLocalError ''conn'')"
    by (simp add: process_frame_def frame_db_down_def flush_state_def general_running_def
          init_service_def calculate_and_store_average_def AVERAGE_INTERVAL_def Let_def)
  from a b show ?thesis by simp
qed

end
